theory Spec2Isabelle
  imports Complex_Main
begin

section \<open>Double-precision arithmetic\<close>

text \<open>
  The class \<open>AdaptiveCruiseControl\<close> computes with values of the C++ type \<open>double\<close>.
  A double is a finite number, one of the two infinities, or NaN. A finite double is
  modelled by the real number it stands for; the two zeros are one value here: they
  compare equal, and the class neither divides by a stored value nor inspects the
  sign of a zero. Every arithmetic operation computes the exact result and rounds it
  to the nearest double, ties to the even significand, as IEEE 754 binary64 does
  in the default rounding mode (expressions are evaluated in double precision, with
  no wider intermediate format). The type has room for real numbers that are no
  doubles; the general theorems below hold for them too, and every state that is
  evaluated below is built from literals or from multiples of \<open>2\<^sup>-\<^sup>1\<^sup>0\<^sup>7\<^sup>4\<close>.
\<close>

datatype double = Finite real | PInf | NInf | NaN

text \<open>
  The binary exponent used for rounding a positive number \<open>x\<close>: the greatest \<open>e\<close>
  with \<open>2\<^sup>e \<le> x\<close>, found by binary search from the least normal exponent -1022
  upwards. Numbers below \<open>2\<^sup>-\<^sup>1\<^sup>0\<^sup>2\<^sup>2\<close> keep the exponent -1022: they are rounded on
  the grid of the subnormal numbers.
\<close>

definition expo :: "real \<Rightarrow> int" where
  "expo x = foldl (\<lambda>e k. if 2 powi (e + k) \<le> x then e + k else e) (- 1022)
              [1024, 512, 256, 128, 64, 32, 16, 8, 4, 2, 1]"

definition round_half_even :: "real \<Rightarrow> int" where
  "round_half_even y =
     (let f = \<lfloor>y\<rfloor> in
      if y - of_int f < 1 / 2 then f
      else if y - of_int f > 1 / 2 then f + 1
      else if even f then f else f + 1)"

text \<open>
  A positive number is rounded to a multiple of \<open>2\<^sup>e\<^sup>-\<^sup>5\<^sup>2\<close>, which leaves 53
  significant bits; a result of \<open>2\<^sup>1\<^sup>0\<^sup>2\<^sup>4\<close> or more overflows to infinity.
\<close>

definition round_pos :: "real \<Rightarrow> double" where
  "round_pos x =
     (let q = 2 powi (expo x - 52);
          r = of_int (round_half_even (x / q)) * q
      in if r \<ge> 2 ^ 1024 then PInf else Finite r)"

fun dneg :: "double \<Rightarrow> double" where
  "dneg (Finite x) = Finite (- x)"
| "dneg PInf = NInf"
| "dneg NInf = PInf"
| "dneg NaN = NaN"

definition round_double :: "real \<Rightarrow> double" where
  "round_double x =
     (if x = 0 then Finite 0 else if x > 0 then round_pos x else dneg (round_pos (- x)))"

text \<open>A decimal literal of the source denotes the double nearest to it.\<close>

definition lit :: "real \<Rightarrow> double" where
  "lit x = round_double x"

text \<open>Comparisons: every comparison with NaN is false.\<close>

fun dlt :: "double \<Rightarrow> double \<Rightarrow> bool" where
  "dlt (Finite x) (Finite y) = (x < y)"
| "dlt (Finite x) PInf = True"
| "dlt NInf (Finite y) = True"
| "dlt NInf PInf = True"
| "dlt _ _ = False"

definition dle :: "double \<Rightarrow> double \<Rightarrow> bool" where
  "dle a b \<longleftrightarrow> a \<noteq> NaN \<and> b \<noteq> NaN \<and> \<not> dlt b a"

definition dgt :: "double \<Rightarrow> double \<Rightarrow> bool" where
  "dgt a b = dlt b a"

definition dge :: "double \<Rightarrow> double \<Rightarrow> bool" where
  "dge a b = dle b a"

fun dadd :: "double \<Rightarrow> double \<Rightarrow> double" where
  "dadd (Finite x) (Finite y) = round_double (x + y)"
| "dadd (Finite x) PInf = PInf"
| "dadd (Finite x) NInf = NInf"
| "dadd PInf (Finite y) = PInf"
| "dadd NInf (Finite y) = NInf"
| "dadd PInf PInf = PInf"
| "dadd NInf NInf = NInf"
| "dadd PInf NInf = NaN"
| "dadd NInf PInf = NaN"
| "dadd NaN b = NaN"
| "dadd a NaN = NaN"

definition dsub :: "double \<Rightarrow> double \<Rightarrow> double" where
  "dsub a b = dadd a (dneg b)"

fun dmul :: "double \<Rightarrow> double \<Rightarrow> double" where
  "dmul (Finite x) (Finite y) = round_double (x * y)"
| "dmul (Finite x) PInf = (if x = 0 then NaN else if 0 < x then PInf else NInf)"
| "dmul (Finite x) NInf = (if x = 0 then NaN else if 0 < x then NInf else PInf)"
| "dmul PInf (Finite y) = (if y = 0 then NaN else if 0 < y then PInf else NInf)"
| "dmul NInf (Finite y) = (if y = 0 then NaN else if 0 < y then NInf else PInf)"
| "dmul PInf PInf = PInf"
| "dmul NInf NInf = PInf"
| "dmul PInf NInf = NInf"
| "dmul NInf PInf = NInf"
| "dmul NaN b = NaN"
| "dmul a NaN = NaN"

text \<open>
  \<open>std::max(a, b)\<close> is \<open>(a < b) ? b : a\<close> and \<open>std::min(a, b)\<close> is
  \<open>(b < a) ? b : a\<close>.
\<close>

definition std_max :: "double \<Rightarrow> double \<Rightarrow> double" where
  "std_max a b = (if dlt a b then b else a)"

definition std_min :: "double \<Rightarrow> double \<Rightarrow> double" where
  "std_min a b = (if dlt b a then b else a)"

text \<open>
  The quotient \<open>5.0 / 9.0\<close>: both literals are doubles as they stand, and their
  quotient is rounded once.
\<close>

definition five_ninths :: double where
  "five_ninths = round_double (5 / 9)"

section \<open>The adaptive cruise control component\<close>

record AdaptiveCruiseControl =
  egoSpeed :: double
  aheadVehicleSpeed :: double
  distanceToAheadVehicle :: double
  logFileName :: string

text \<open>
  The constructor copies its four arguments into the four fields; the header gives the
  defaults \<open>0.0\<close>, \<open>0.0\<close>, \<open>0.0\<close> and \<open>"acc_log.txt"\<close>.
\<close>

definition AdaptiveCruiseControl_ctor ::
    "double \<Rightarrow> double \<Rightarrow> double \<Rightarrow> string \<Rightarrow> AdaptiveCruiseControl" where
  "AdaptiveCruiseControl_ctor e a d f =
     \<lparr>egoSpeed = e, aheadVehicleSpeed = a, distanceToAheadVehicle = d, logFileName = f\<rparr>"

definition AdaptiveCruiseControl_default :: AdaptiveCruiseControl where
  "AdaptiveCruiseControl_default =
     AdaptiveCruiseControl_ctor (lit 0) (lit 0) (lit 0) ''acc_log.txt''"

definition getEgoSpeed :: "AdaptiveCruiseControl \<Rightarrow> double" where
  "getEgoSpeed s = egoSpeed s"

definition getAheadVehicleSpeed :: "AdaptiveCruiseControl \<Rightarrow> double" where
  "getAheadVehicleSpeed s = aheadVehicleSpeed s"

definition getDistance :: "AdaptiveCruiseControl \<Rightarrow> double" where
  "getDistance s = distanceToAheadVehicle s"

definition getLogFileName :: "AdaptiveCruiseControl \<Rightarrow> string" where
  "getLogFileName s = logFileName s"

definition setLogFileName :: "string \<Rightarrow> AdaptiveCruiseControl \<Rightarrow> AdaptiveCruiseControl" where
  "setLogFileName fileName s = s\<lparr>logFileName := fileName\<rparr>"

subsection \<open>Telemetry updates\<close>

text \<open>
  Both setters are \<open>void\<close> and throw nothing: the only branch is the guard
  \<open>speed >= 0.0\<close> (respectively \<open>distance >= 0.0\<close>), and a value that fails it is
  dropped. The model is therefore a total function from state to state, with no
  error result.
\<close>

definition updateAheadVehicleSpeed ::
    "double \<Rightarrow> AdaptiveCruiseControl \<Rightarrow> AdaptiveCruiseControl" where
  "updateAheadVehicleSpeed speed s =
     (if dge speed (lit 0) then s\<lparr>aheadVehicleSpeed := speed\<rparr> else s)"

definition updateDistance ::
    "double \<Rightarrow> AdaptiveCruiseControl \<Rightarrow> AdaptiveCruiseControl" where
  "updateDistance distance s =
     (if dge distance (lit 0) then s\<lparr>distanceToAheadVehicle := distance\<rparr> else s)"

subsection \<open>Safe distance and speed adjustment\<close>

definition calculateSafeDistance :: "AdaptiveCruiseControl \<Rightarrow> double" where
  "calculateSafeDistance s = dmul (egoSpeed s) five_ninths"

text \<open>
  \<open>adjustSpeed\<close> tests the too-close condition first, and the good-distance condition
  only when the first one fails, as the \<open>if\<close> / \<open>else if\<close> of the source does.
\<close>

definition adjustSpeed :: "AdaptiveCruiseControl \<Rightarrow> AdaptiveCruiseControl" where
  "adjustSpeed s =
     (let safeDistance = calculateSafeDistance s in
      if dlt (distanceToAheadVehicle s) safeDistance then
        (if dlt (aheadVehicleSpeed s) (egoSpeed s)
         then s\<lparr>egoSpeed := aheadVehicleSpeed s\<rparr>
         else s\<lparr>egoSpeed := std_max (lit 0) (dsub (egoSpeed s) (lit 5))\<rparr>)
      else if dgt (distanceToAheadVehicle s) (dmul safeDistance (lit 1.5)) then
        (if dgt (aheadVehicleSpeed s) (egoSpeed s) \<and> dlt (egoSpeed s) (lit 120)
         then s\<lparr>egoSpeed := std_min (lit 120) (dadd (egoSpeed s) (lit 2))\<rparr>
         else s)
      else s)"

subsection \<open>Status output\<close>

text \<open>
  \<open>displayStatus\<close> writes to standard output and \<open>saveStatusToFile\<close> appends to the
  log file. Each line they write is a constructor of \<open>line\<close>, carrying the numbers or
  names inserted into the stream; the formatting of the numbers (fixed, one decimal)
  is not modelled. The three advisory sentences are the constructors of \<open>advisory\<close>;
  the too-close sentence quotes the ahead vehicle's speed. On the console the sentence
  is printed as it is (\<open>Advisory\<close>), in the log it follows the word \<open>Status:\<close>
  (\<open>Status\<close>).
\<close>

datatype advisory = TooClose double | SafeGap | Caution

datatype line =
    CurrentSpeed double
  | CarAheadSpeed double
  | Distance double
  | SafeDistance double
  | Advisory advisory
  | Rule
  | RecordHeader
  | Timestamp string
  | Status advisory
  | SavedTo string
  | OpenError

text \<open>
  What the two functions reach outside the object: the console, the files by name,
  whether a file can be opened for appending, and the text \<open>ctime\<close> gives for the
  current time.
\<close>

record world =
  console :: "line list"
  files :: "string \<Rightarrow> line list"
  openable :: "string \<Rightarrow> bool"
  clock :: string

definition displayStatus :: "AdaptiveCruiseControl \<Rightarrow> world \<Rightarrow> world" where
  "displayStatus s w =
     (let safeDistance = calculateSafeDistance s in
      w\<lparr>console := console w @
        [CurrentSpeed (egoSpeed s),
         CarAheadSpeed (aheadVehicleSpeed s),
         Distance (distanceToAheadVehicle s),
         SafeDistance safeDistance,
         (if dlt (distanceToAheadVehicle s) safeDistance then
            Advisory (TooClose (aheadVehicleSpeed s))
          else if dgt (distanceToAheadVehicle s) (dmul safeDistance (lit 1.2)) then
            Advisory SafeGap
          else
            Advisory Caution),
         Rule]\<rparr>)"

definition saveStatusToFile :: "AdaptiveCruiseControl \<Rightarrow> world \<Rightarrow> world" where
  "saveStatusToFile s w =
     (if openable w (logFileName s) then
        (let dt = clock w;
             safeDistance = calculateSafeDistance s;
             entry =
               [RecordHeader,
                Timestamp dt,
                CurrentSpeed (egoSpeed s),
                CarAheadSpeed (aheadVehicleSpeed s),
                Distance (distanceToAheadVehicle s),
                SafeDistance safeDistance,
                (if dlt (distanceToAheadVehicle s) safeDistance then
                   Status (TooClose (aheadVehicleSpeed s))
                 else if dgt (distanceToAheadVehicle s) (dmul safeDistance (lit 1.2)) then
                   Status SafeGap
                 else
                   Status Caution),
                Rule]
         in w\<lparr>files := (files w)(logFileName s := files w (logFileName s) @ entry),
              console := console w @ [SavedTo (logFileName s)]\<rparr>)
      else w\<lparr>console := console w @ [OpenError]\<rparr>)"

text \<open>The advisory sentences among some lines, in order.\<close>

fun advisories :: "line list \<Rightarrow> advisory list" where
  "advisories [] = []"
| "advisories (Advisory a # ls) = a # advisories ls"
| "advisories (Status a # ls) = a # advisories ls"
| "advisories (_ # ls) = advisories ls"

text \<open>
  The advisories one call of \<open>displayStatus\<close> adds to the console, and the advisories
  one call of \<open>saveStatusToFile\<close> adds to the object's log file.
\<close>

definition console_advice :: "AdaptiveCruiseControl \<Rightarrow> world \<Rightarrow> advisory list" where
  "console_advice s w =
     advisories (drop (length (console w)) (console (displayStatus s w)))"

definition log_advice :: "AdaptiveCruiseControl \<Rightarrow> world \<Rightarrow> advisory list" where
  "log_advice s w =
     advisories (drop (length (files w (logFileName s)))
       (files (saveStatusToFile s w) (logFileName s)))"

subsection \<open>Calls on an object\<close>

text \<open>
  A call of a \<open>void\<close> member function acts on the object and on the world around
  it. The functions that contain no stream or file operation leave the world as it
  is; the two \<open>const\<close> output functions leave the object as it is.
\<close>

datatype operation =
    UpdateAheadVehicleSpeed double
  | UpdateDistance double
  | AdjustSpeed
  | DisplayStatus
  | SaveStatusToFile
  | SetLogFileName string

fun invoke :: "operation \<Rightarrow> AdaptiveCruiseControl \<times> world \<Rightarrow> AdaptiveCruiseControl \<times> world" where
  "invoke (UpdateAheadVehicleSpeed speed) (s, w) = (updateAheadVehicleSpeed speed s, w)"
| "invoke (UpdateDistance distance) (s, w) = (updateDistance distance s, w)"
| "invoke AdjustSpeed (s, w) = (adjustSpeed s, w)"
| "invoke DisplayStatus (s, w) = (s, displayStatus s w)"
| "invoke SaveStatusToFile (s, w) = (s, saveStatusToFile s w)"
| "invoke (SetLogFileName fileName) (s, w) = (setLogFileName fileName s, w)"

text \<open>
  A world to run the output functions in: nothing printed yet, no file with any
  content, every file can be opened.
\<close>

definition quiet_world :: world where
  "quiet_world =
     \<lparr>console = [], files = (\<lambda>fileName. []), openable = (\<lambda>fileName. True),
      clock = ''Thu Jan  1 00:00:00 1970''\<rparr>"

subsection \<open>The conditions of the specification\<close>

text \<open>The non-negativity constraint of the data model on the three telemetry values.\<close>

definition nonneg :: "AdaptiveCruiseControl \<Rightarrow> bool" where
  "nonneg s \<longleftrightarrow>
     dge (egoSpeed s) (lit 0) \<and> dge (aheadVehicleSpeed s) (lit 0)
     \<and> dge (distanceToAheadVehicle s) (lit 0)"


text \<open>
  The zones in the words of the specification, for finite values: the safe distance
  is the product \<open>egoSpeed \<times> 5/9\<close> of real numbers, without rounding.
\<close>

definition too_close_exact :: "AdaptiveCruiseControl \<Rightarrow> bool" where
  "too_close_exact s =
     (case (distanceToAheadVehicle s, egoSpeed s) of
        (Finite g, Finite e) \<Rightarrow> g < e * 5 / 9
      | _ \<Rightarrow> False)"

definition good_distance_exact :: "AdaptiveCruiseControl \<Rightarrow> bool" where
  "good_distance_exact s =
     (case (distanceToAheadVehicle s, egoSpeed s) of
        (Finite g, Finite e) \<Rightarrow> g > 1.5 * (e * 5 / 9)
      | _ \<Rightarrow> False)"


definition hold_speed_exact :: "AdaptiveCruiseControl \<Rightarrow> bool" where
  "hold_speed_exact s =
     (case (distanceToAheadVehicle s, egoSpeed s) of
        (Finite g, Finite e) \<Rightarrow> \<not> g < e * 5 / 9 \<and> g > 1.2 * (e * 5 / 9)
      | _ \<Rightarrow> False)"

text \<open>A double lies within a tolerance of a real number.\<close>

definition within_tol :: "real \<Rightarrow> double \<Rightarrow> real \<Rightarrow> bool" where
  "within_tol tol d x = (case d of Finite r \<Rightarrow> \<bar>r - x\<bar> \<le> tol | _ \<Rightarrow> False)"

section \<open>Rounding\<close>

lemma pow2: "(2::real) powi n = (if 0 \<le> n then 2 ^ nat n else 1 / 2 ^ nat (- n))"
  by (simp add: power_int_def field_simps)

lemmas round_eval =
  round_double_def round_pos_def round_half_even_def expo_def Let_def pow2

lemma lit_values:
  "lit 0 = Finite 0" "lit 2 = Finite 2" "lit 5 = Finite 5" "lit 120 = Finite 120"
  "lit (3 / 2) = Finite (3 / 2)" "lit (6 / 5) = Finite (5404319552844595 / 2 ^ 52)"
  by (simp_all add: lit_def round_eval)

lemma five_ninths_value: "five_ninths = Finite (2501999792983609 / 2 ^ 52)"
  by (simp add: five_ninths_def round_eval)

lemma rhe_upper: "real_of_int (round_half_even y) \<le> y + 1 / 2"
  unfolding round_half_even_def Let_def by (auto; linarith)

lemma rhe_lower: "y - 1 / 2 \<le> real_of_int (round_half_even y)"
  unfolding round_half_even_def Let_def by (auto; linarith)

lemma rhe_nonneg: "0 \<le> y \<Longrightarrow> 0 \<le> round_half_even y"
  unfolding round_half_even_def Let_def by auto

lemma search_inv:
  "e0 = - 1022 \<or> 2 powi e0 \<le> x \<Longrightarrow>
   foldl (\<lambda>e k. if 2 powi (e + k) \<le> x then e + k else e) e0 ks = - 1022
   \<or> 2 powi (foldl (\<lambda>e k. if 2 powi (e + k) \<le> x then e + k else e) e0 ks) \<le> (x::real)"
proof (induction ks arbitrary: e0)
  case Nil
  then show ?case by simp
next
  case (Cons k ks)
  show ?case
    using Cons.prems by (auto intro!: Cons.IH)
qed

lemma expo_spec: "expo x = - 1022 \<or> 2 powi (expo x) \<le> x"
  unfolding expo_def by (rule search_inv) simp

lemma search_lt:
  "x < 2 powi (e0 + 2 ^ n) \<Longrightarrow>
   x < 2 powi (foldl (\<lambda>e k. if 2 powi (e + k) \<le> x then e + k else e) e0
         (map (\<lambda>i. 2 ^ i) (rev [0..<n])) + 1)" for x :: real
proof (induction n arbitrary: e0)
  case 0
  then show ?case by simp
next
  case (Suc n)
  show ?case
  proof (cases "2 powi (e0 + 2 ^ n) \<le> x")
    case True
    have "e0 + 2 ^ n + 2 ^ n = e0 + 2 ^ Suc n" by simp
    with Suc.prems have "x < 2 powi (e0 + 2 ^ n + 2 ^ n)" by (simp only:)
    from Suc.IH [OF this] True show ?thesis by simp
  next
    case False
    then have "x < 2 powi (e0 + 2 ^ n)" by simp
    from Suc.IH [OF this] False show ?thesis by simp
  qed
qed

lemma expo_lt:
  assumes "x < 2 ^ 1026"
  shows "x < 2 powi (expo x + 1)"
proof -
  have "[1024, 512, 256, 128, 64, 32, 16, 8, 4, 2, 1 :: int] = map (\<lambda>i. 2 ^ i) (rev [0..<11])"
    by (simp add: upt_rec)
  moreover have "x < 2 powi (- 1022 + 2 ^ 11)" using assms by simp
  ultimately show ?thesis
    unfolding expo_def using search_lt [of x "- 1022" 11] by simp
qed

text \<open>
  From \<open>2\<^sup>-\<^sup>1\<^sup>0\<^sup>2\<^sup>2\<close> up to \<open>2\<^sup>1\<^sup>0\<^sup>2\<^sup>6\<close>, \<open>expo x\<close> is the binary exponent of \<open>x\<close>; below, it
  is the least normal exponent.
\<close>

lemma expo_exponent:
  assumes "2 powi (- 1022) \<le> x" and "x < 2 ^ 1026"
  shows "2 powi (expo x) \<le> x \<and> x < 2 powi (expo x + 1)"
  using expo_spec [of x] expo_lt [OF assms(2)] assms(1) by auto

lemma expo_less:
  assumes "x < 2 ^ k"
  shows "expo x < int k"
proof (rule ccontr)
  assume "\<not> expo x < int k"
  then have ge: "int k \<le> expo x" by simp
  then have "expo x \<noteq> - 1022" by simp
  with expo_spec [of x] have "2 powi (expo x) \<le> x" by simp
  moreover from ge have "(2::real) powi (int k) \<le> 2 powi (expo x)"
    by (intro power_int_increasing) simp_all
  ultimately have "(2::real) ^ k \<le> x" by simp
  with assms show False by simp
qed

lemma round_pos_shape:
  assumes "0 < x"
  shows "round_pos x = PInf \<or> (\<exists>r. round_pos x = Finite r \<and> 0 \<le> r)"
proof -
  have "0 \<le> x / 2 powi (expo x - 52)" using assms by simp
  then have "0 \<le> round_half_even (x / 2 powi (expo x - 52))" by (rule rhe_nonneg)
  then have "0 \<le> real_of_int (round_half_even (x / 2 powi (expo x - 52))) * 2 powi (expo x - 52)"
    by simp
  then show ?thesis by (simp add: round_pos_def Let_def)
qed

lemma round_pos_close:
  assumes "0 < x" and "x < 2 ^ k" and "k \<le> 1023"
  shows "\<exists>r. round_pos x = Finite r \<and> 0 \<le> r \<and> \<bar>r - x\<bar> \<le> 2 ^ k / 2 ^ 54"
proof -
  define q :: real where "q = 2 powi (expo x - 52)"
  define r where "r = real_of_int (round_half_even (x / q)) * q"
  have qpos: "0 < q" by (simp add: q_def)
  have "expo x - 52 \<le> int k - 53" using expo_less [OF assms(2)] by simp
  then have "q \<le> 2 powi (int k - 53)"
    unfolding q_def by (intro power_int_increasing) simp_all
  also have "\<dots> = 2 ^ k / 2 ^ 53" by (simp add: power_int_diff)
  finally have qle: "q \<le> 2 ^ k / 2 ^ 53" .
  have "r \<le> (x / q + 1 / 2) * q"
    unfolding r_def using rhe_upper [of "x / q"] qpos by (simp add: mult_right_mono)
  moreover have "(x / q + 1 / 2) * q = x + q / 2" using qpos by (simp add: field_simps)
  ultimately have up: "r \<le> x + q / 2" by simp
  have "(x / q - 1 / 2) * q \<le> r"
    unfolding r_def using rhe_lower [of "x / q"] qpos by (simp add: mult_right_mono)
  moreover have "(x / q - 1 / 2) * q = x - q / 2" using qpos by (simp add: field_simps)
  ultimately have lo: "x - q / 2 \<le> r" by simp
  have r0: "0 \<le> r"
    unfolding r_def using rhe_nonneg [of "x / q"] assms(1) qpos by simp
  have "\<bar>r - x\<bar> \<le> q / 2" using up lo by linarith
  also have "q / 2 \<le> (2 ^ k / 2 ^ 53) / 2" using qle by (rule divide_right_mono) simp
  also have "\<dots> = 2 ^ k / 2 ^ 54" by simp
  finally have close: "\<bar>r - x\<bar> \<le> 2 ^ k / 2 ^ 54" .
  have "(2::real) ^ k \<le> 2 ^ 1023" using assms(3) by (intro power_increasing) simp_all
  then have "r < 2 ^ 1024" using up qle assms(2) by simp
  then have "round_pos x = Finite r"
    by (simp add: round_pos_def Let_def q_def [symmetric] r_def [symmetric])
  with r0 close show ?thesis by blast
qed

lemma round_double_close:
  assumes "\<bar>x\<bar> < 2 ^ k" and "k \<le> 1023"
  shows "\<exists>r. round_double x = Finite r \<and> \<bar>r - x\<bar> \<le> 2 ^ k / 2 ^ 54
           \<and> (0 \<le> x \<longrightarrow> 0 \<le> r) \<and> (x \<le> 0 \<longrightarrow> r \<le> 0)"
proof (cases "x = 0")
  case True
  then show ?thesis by (simp add: round_double_def)
next
  case False
  show ?thesis
  proof (cases "0 < x")
    case True
    with round_pos_close [of x k] assms show ?thesis
      by (auto simp: round_double_def)
  next
    case neg: False
    with False have "0 < - x" by simp
    moreover have "- x < 2 ^ k" using assms(1) by simp
    ultimately obtain r where r: "round_pos (- x) = Finite r" "0 \<le> r"
        "\<bar>r - (- x)\<bar> \<le> 2 ^ k / 2 ^ 54"
      using round_pos_close [of "- x" k] assms(2) by blast
    have "\<bar>- r - x\<bar> = \<bar>r - (- x)\<bar>" by (simp add: abs_if)
    with r(3) have "\<bar>- r - x\<bar> \<le> 2 ^ k / 2 ^ 54" by simp
    moreover from r(1) neg False have "round_double x = Finite (- r)"
      by (simp add: round_double_def)
    ultimately show ?thesis using r(2) neg False by simp
  qed
qed

lemma round_double_sign:
  "0 \<le> x \<Longrightarrow> dle (Finite 0) (round_double x)"
  "x \<le> 0 \<Longrightarrow> dle (round_double x) (Finite 0)"
  using round_pos_shape [of x] round_pos_shape [of "- x"]
  by (auto simp: round_double_def dle_def)

lemma round_double_le_120:
  assumes "z \<le> 115"
  shows "dle (round_double z) (Finite 120)"
proof (cases "z \<le> 0")
  case True
  then have "dle (round_double z) (Finite 0)" by (rule round_double_sign)
  then show ?thesis by (cases "round_double z") (simp_all add: dle_def)
next
  case False
  with assms have "\<bar>z\<bar> < 2 ^ 7" by simp
  then obtain r where r: "round_double z = Finite r" "\<bar>r - z\<bar> \<le> 2 ^ 7 / 2 ^ 54"
    using round_double_close [of z 7] by auto
  have "(2::real) ^ 7 / 2 ^ 54 \<le> 1" by simp
  with r(2) assms have "r \<le> 120" by linarith
  with r(1) show ?thesis by (simp add: dle_def)
qed

lemma search_ge:
  "- 1022 \<le> e0 \<Longrightarrow> \<forall>k\<in>set ks. 0 \<le> k \<Longrightarrow>
   - 1022 \<le> foldl (\<lambda>e k. if 2 powi (e + k) \<le> (x::real) then e + k else e) e0 ks"
  by (induction ks arbitrary: e0) auto

lemma expo_ge: "- 1022 \<le> expo x"
  unfolding expo_def by (rule search_ge) simp_all

text \<open>
  Scaling a non-negative multiple of \<open>2\<^sup>-\<^sup>1\<^sup>0\<^sup>7\<^sup>4\<close> by a factor above one and rounding
  does not go below the number.
\<close>

lemma round_pos_scaled_ge:
  assumes "0 < r" and "r = of_int N / 2 ^ 1074" and "1 + 1 / 2 ^ 52 \<le> f"
  shows "dle (Finite r) (round_pos (r * f))"
proof -
  define y where "y = r * f"
  define q :: real where "q = 2 powi (expo y - 52)"
  define r' where "r' = real_of_int (round_half_even (y / q)) * q"
  have qpos: "0 < q" by (simp add: q_def)
  have f1: "1 \<le> f" using assms(3) by (simp add: field_simps)
  have ypos: "0 < y" using assms(1) f1 by (simp add: y_def)
  have "r \<le> r'"
  proof (cases "expo y = - 1022")
    case True
    then have q: "q = 1 / 2 ^ 1074" by (simp add: q_def pow2)
    have "of_int N \<le> of_int N * f" using assms(1,2) f1 by (simp add: field_simps)
    also have "\<dots> = y / q" by (simp add: y_def q assms(2))
    finally have "N \<le> \<lfloor>y / q\<rfloor>" by (simp add: le_floor_iff)
    moreover have "\<lfloor>y / q\<rfloor> \<le> round_half_even (y / q)"
      by (simp add: round_half_even_def Let_def)
    ultimately have "of_int N \<le> real_of_int (round_half_even (y / q))" by simp
    then have "of_int N * q \<le> r'" unfolding r'_def using qpos by (simp add: mult_right_mono)
    then show ?thesis by (simp add: q assms(2))
  next
    case False
    with expo_spec [of y] have "2 powi (expo y) \<le> y" by simp
    moreover have "q = 2 powi (expo y) / 2 ^ 52" by (simp add: q_def power_int_diff)
    ultimately have qle: "q \<le> y / 2 ^ 52" by (simp add: divide_right_mono)
    have "(y / q - 1 / 2) * q \<le> r'"
      unfolding r'_def using rhe_lower [of "y / q"] qpos by (simp add: mult_right_mono)
    moreover have "(y / q - 1 / 2) * q = y - q / 2" using qpos by (simp add: field_simps)
    ultimately have "y - q / 2 \<le> r'" by simp
    with qle have lo: "y - y / 2 ^ 53 \<le> r'" by simp
    have "1 \<le> f * (1 - 1 / 2 ^ 53)"
    proof -
      have "1 \<le> (1 + 1 / 2 ^ 52) * (1 - 1 / 2 ^ 53 :: real)" by simp
      also have "\<dots> \<le> f * (1 - 1 / 2 ^ 53)" using assms(3) by (intro mult_right_mono) simp_all
      finally show ?thesis .
    qed
    then have "r * 1 \<le> r * (f * (1 - 1 / 2 ^ 53))" using assms(1) by (intro mult_left_mono) simp_all
    also have "\<dots> = y - y / 2 ^ 53" by (simp add: y_def algebra_simps)
    finally show ?thesis using lo by simp
  qed
  then show ?thesis
    by (simp add: round_pos_def Let_def y_def [symmetric] q_def [symmetric] r'_def [symmetric]
        dle_def)
qed

lemma round_pos_grid:
  assumes "round_pos x = Finite r"
  shows "\<exists>N. r = of_int N / 2 ^ 1074"
proof -
  define n where "n = round_half_even (x / 2 powi (expo x - 52))"
  from assms have r: "r = of_int n * 2 powi (expo x - 52)"
    by (simp add: round_pos_def Let_def n_def split: if_splits)
  have nn: "0 \<le> expo x + 1022" using expo_ge [of x] by simp
  have "(2::real) powi (expo x - 52) = 2 powi ((expo x + 1022) + (- 1074))" by simp
  also have "\<dots> = 2 powi (expo x + 1022) * 2 powi (- 1074)"
    by (rule power_int_add) simp
  also have "(2::real) powi (expo x + 1022) = 2 ^ nat (expo x + 1022)"
    using nn by (simp add: power_int_def)
  also have "(2::real) powi (- 1074) = 1 / 2 ^ 1074" by (simp add: pow2)
  finally have "(2::real) powi (expo x - 52) = 2 ^ nat (expo x + 1022) / 2 ^ 1074" by simp
  with r have "r = of_int (n * 2 ^ nat (expo x + 1022)) / 2 ^ 1074" by simp
  then show ?thesis by blast
qed

lemma dle_between: "dle a b \<Longrightarrow> dlt g a \<Longrightarrow> dlt b g \<Longrightarrow> False"
  by (cases a; cases b; cases g) (simp_all add: dle_def)

text \<open>
  For an ego speed that is not negative, the safe distance times a factor above one is
  not below the safe distance: no gap is below the one and above the other.
\<close>

lemma zones_disjoint:
  assumes "dge e (Finite 0)" and "1 + 1 / 2 ^ 52 \<le> f"
  shows "\<not> (dlt g (dmul e five_ninths) \<and> dlt (dmul (dmul e five_ninths) (Finite f)) g)"
proof -
  have fpos: "0 < f"
  proof -
    have "(0::real) < 1 + 1 / 2 ^ 52" by simp
    with assms(2) show ?thesis by linarith
  qed
  have zero: "\<not> (dlt g (Finite 0) \<and> dlt (dmul (Finite 0) (Finite f)) g)"
    by (cases g) (simp_all add: round_double_def)
  have inf: "\<not> (dlt g PInf \<and> dlt (dmul PInf (Finite f)) g)"
    using fpos by (cases g) simp_all
  have pos: "\<not> (dlt g (round_pos y) \<and> dlt (dmul (round_pos y) (Finite f)) g)" if "0 < y" for y
  proof -
    from round_pos_shape [OF that] consider "round_pos y = PInf"
      | r where "round_pos y = Finite r" "0 \<le> r" by blast
    then show ?thesis
    proof cases
      case 1
      with inf show ?thesis by simp
    next
      case 2
      show ?thesis
      proof (cases "r = 0")
        case True
        with 2 zero show ?thesis by simp
      next
        case False
        with 2 have rpos: "0 < r" by simp
        from round_pos_grid [OF 2(1)] obtain N where "r = of_int N / 2 ^ 1074" by blast
        with rpos assms(2) have "dle (Finite r) (round_pos (r * f))"
          by (intro round_pos_scaled_ge)
        moreover from rpos fpos have "dmul (Finite r) (Finite f) = round_pos (r * f)"
          by (simp add: round_double_def)
        ultimately show ?thesis using 2(1) dle_between by force
      qed
    qed
  qed
  show ?thesis
  proof (cases e)
    case (Finite x)
    with assms(1) have "0 \<le> x" by (simp add: dge_def dle_def)
    then consider "x = 0" | "0 < x" by fastforce
    then show ?thesis
    proof cases
      case 1
      with Finite zero show ?thesis by (simp add: five_ninths_value round_double_def)
    next
      case 2
      then have "0 < x * (2501999792983609 / 2 ^ 52)" by simp
      from pos [OF this] Finite show ?thesis
        using 2 by (simp add: five_ninths_value round_double_def)
    qed
  next
    case PInf
    with inf show ?thesis by (simp add: five_ninths_value)
  next
    case NInf
    with assms(1) show ?thesis by (simp add: dge_def dle_def)
  next
    case NaN
    with assms(1) show ?thesis by (simp add: dge_def dle_def)
  qed
qed

section \<open>Properties of the adjustment step\<close>

lemma egoSpeed_adjustSpeed:
  "egoSpeed (adjustSpeed s) =
     (if dlt (distanceToAheadVehicle s) (calculateSafeDistance s) then
        (if dlt (aheadVehicleSpeed s) (egoSpeed s) then aheadVehicleSpeed s
         else std_max (Finite 0) (dsub (egoSpeed s) (Finite 5)))
      else if dgt (distanceToAheadVehicle s) (dmul (calculateSafeDistance s) (Finite (3 / 2))) then
        (if dgt (aheadVehicleSpeed s) (egoSpeed s) \<and> dlt (egoSpeed s) (Finite 120)
         then std_min (Finite 120) (dadd (egoSpeed s) (Finite 2)) else egoSpeed s)
      else egoSpeed s)"
  by (simp add: adjustSpeed_def Let_def lit_values)

lemma dlt_dle_trans: "dlt a b \<Longrightarrow> dle b c \<Longrightarrow> dle a c"
  by (cases a; cases b; cases c) (simp_all add: dle_def)

lemma decrease_le_120:
  assumes "dle e (Finite 120)"
  shows "dle (std_max (Finite 0) (dsub e (Finite 5))) (Finite 120)"
proof (cases e)
  case (Finite x)
  with assms have "x - 5 \<le> 115" by (simp add: dle_def)
  then have "dle (round_double (x - 5)) (Finite 120)" by (rule round_double_le_120)
  with Finite show ?thesis by (simp add: std_max_def dsub_def dle_def)
next
  case PInf
  with assms show ?thesis by (simp add: dle_def)
next
  case NInf
  then show ?thesis by (simp add: std_max_def dsub_def dle_def)
next
  case NaN
  with assms show ?thesis by (simp add: dle_def)
qed

lemma increase_le_120: "dle (std_min (Finite 120) y) (Finite 120)"
  by (cases y) (simp_all add: std_min_def dle_def)

text \<open>
  Claim C1 says that after every call of \<open>adjustSpeed\<close> the ego speed is at most 120,
  whatever it was before. The cap is applied in the increase branch only: a state
  built with ego speed 200, ahead speed 180 and gap 100 is in the too-close zone and
  comes out with ego speed 180.
\<close>

theorem adjustSpeed_cap_counterexample:
  "\<not> dle (egoSpeed (adjustSpeed
        (AdaptiveCruiseControl_ctor (lit 200) (lit 180) (lit 100) ''acc_log.txt'')))
      (lit 120)"
  by (simp add: egoSpeed_adjustSpeed calculateSafeDistance_def five_ninths_value
      AdaptiveCruiseControl_ctor_def lit_def dle_def round_eval)

text \<open>
  Claim C1, amended: the bound 120 is preserved by \<open>adjustSpeed\<close>. When the ego
  speed is at most 120 before the call, it is at most 120 after it.
\<close>

theorem adjustSpeed_preserves_cap:
  assumes "dle (egoSpeed s) (lit 120)"
  shows "dle (egoSpeed (adjustSpeed s)) (lit 120)"
proof -
  from assms have le: "dle (egoSpeed s) (Finite 120)" by (simp add: lit_values)
  have "dle (egoSpeed (adjustSpeed s)) (Finite 120)"
    using le decrease_le_120 [OF le] increase_le_120 [of "dadd (egoSpeed s) (Finite 2)"]
      dlt_dle_trans [of "aheadVehicleSpeed s" "egoSpeed s" "Finite 120"]
    by (simp add: egoSpeed_adjustSpeed)
  then show ?thesis by (simp add: lit_values)
qed

theorem adjustSpeed_preserves_cap_witness:
  "dle (egoSpeed (AdaptiveCruiseControl_ctor (lit 118) (lit 125) (lit 120) ''acc_log.txt''))
     (lit 120)
   \<and> egoSpeed (adjustSpeed
        (AdaptiveCruiseControl_ctor (lit 118) (lit 125) (lit 120) ''acc_log.txt''))
     = lit 120"
  using adjustSpeed_preserves_cap
    [of "AdaptiveCruiseControl_ctor (lit 118) (lit 125) (lit 120) ''acc_log.txt''"]
  by (simp add: egoSpeed_adjustSpeed calculateSafeDistance_def five_ninths_value
      AdaptiveCruiseControl_ctor_def lit_def dle_def dgt_def std_min_def round_eval)

lemmas model_eval =
  calculateSafeDistance_def five_ninths_value AdaptiveCruiseControl_ctor_def lit_def
  dle_def dge_def dgt_def std_min_def std_max_def dsub_def round_eval

text \<open>
  Claim C2 puts the too-close zone at a gap below the real number \<open>egoSpeed \<times> 5/9\<close>.
  The code compares the gap with the rounded product \<open>egoSpeed * (5.0 / 9.0)\<close>. With
  ego speed 57.6, ahead speed 52.6 and gap 32.0, the double 57.6 is a little above the
  decimal 57.6, so the gap 32 is below \<open>egoSpeed \<times> 5/9\<close>; the product rounds to 32.0,
  the test \<open>32.0 < 32.0\<close> fails, and the ego speed stays 57.6 instead of becoming 52.6.
\<close>

theorem adjustSpeed_too_close_counterexample:
  "too_close_exact (AdaptiveCruiseControl_ctor (lit 57.6) (lit 52.6) (lit 32) ''acc_log.txt'')
   \<and> dlt (aheadVehicleSpeed
            (AdaptiveCruiseControl_ctor (lit 57.6) (lit 52.6) (lit 32) ''acc_log.txt''))
          (egoSpeed
            (AdaptiveCruiseControl_ctor (lit 57.6) (lit 52.6) (lit 32) ''acc_log.txt''))
   \<and> egoSpeed (adjustSpeed
        (AdaptiveCruiseControl_ctor (lit 57.6) (lit 52.6) (lit 32) ''acc_log.txt''))
     = lit 57.6
   \<and> lit 57.6 \<noteq> lit 52.6"
  by (simp add: egoSpeed_adjustSpeed too_close_exact_def model_eval)

text \<open>
  Claim C2, amended: for every state whose gap is below the safe distance that
  \<open>calculateSafeDistance\<close> returns, \<open>adjustSpeed\<close> sets the ego speed to the ahead
  vehicle's speed when that is lower than the ego speed, and otherwise to
  \<open>std::max(0.0, egoSpeed - 5.0)\<close>, the difference being a double subtraction.
\<close>

theorem adjustSpeed_too_close:
  assumes "dlt (distanceToAheadVehicle s) (calculateSafeDistance s)"
  shows "egoSpeed (adjustSpeed s) =
           (if dlt (aheadVehicleSpeed s) (egoSpeed s) then aheadVehicleSpeed s
            else std_max (lit 0) (dsub (egoSpeed s) (lit 5)))"
  using assms by (simp add: egoSpeed_adjustSpeed lit_values)

theorem adjustSpeed_too_close_witness:
  "dlt (distanceToAheadVehicle
          (AdaptiveCruiseControl_ctor (lit 90) (lit 95) (lit 15) ''acc_log.txt''))
       (calculateSafeDistance
          (AdaptiveCruiseControl_ctor (lit 90) (lit 95) (lit 15) ''acc_log.txt''))
   \<and> egoSpeed (adjustSpeed
        (AdaptiveCruiseControl_ctor (lit 90) (lit 95) (lit 15) ''acc_log.txt'')) = lit 85
   \<and> dlt (distanceToAheadVehicle
          (AdaptiveCruiseControl_ctor (lit 80) (lit 70) (lit 20) ''acc_log.txt''))
       (calculateSafeDistance
          (AdaptiveCruiseControl_ctor (lit 80) (lit 70) (lit 20) ''acc_log.txt''))
   \<and> egoSpeed (adjustSpeed
        (AdaptiveCruiseControl_ctor (lit 80) (lit 70) (lit 20) ''acc_log.txt'')) = lit 70"
  using
    adjustSpeed_too_close
      [of "AdaptiveCruiseControl_ctor (lit 90) (lit 95) (lit 15) ''acc_log.txt''"]
    adjustSpeed_too_close
      [of "AdaptiveCruiseControl_ctor (lit 80) (lit 70) (lit 20) ''acc_log.txt''"]
  by (simp add: model_eval)

text \<open>
  Claim C3 puts the good-distance zone at a gap above the real number
  \<open>1.5 \<times> (egoSpeed \<times> 5/9)\<close>. The code compares the gap with the twice rounded product
  \<open>safeDistance * 1.5\<close>. With ego speed 58.8, ahead speed 63.8 and gap 49.0, the double
  58.8 is a little below the decimal 58.8, so the gap 49 is above
  \<open>1.5 \<times> (egoSpeed \<times> 5/9)\<close>; the computed threshold is 49.0, the test \<open>49.0 > 49.0\<close>
  fails, and the ego speed stays 58.8 instead of becoming 60.8.
\<close>

theorem adjustSpeed_good_distance_counterexample:
  "good_distance_exact
     (AdaptiveCruiseControl_ctor (lit 58.8) (lit 63.8) (lit 49) ''acc_log.txt'')
   \<and> nonneg (AdaptiveCruiseControl_ctor (lit 58.8) (lit 63.8) (lit 49) ''acc_log.txt'')
   \<and> dgt (lit 63.8) (lit 58.8) \<and> dlt (lit 58.8) (lit 120)
   \<and> egoSpeed (adjustSpeed
        (AdaptiveCruiseControl_ctor (lit 58.8) (lit 63.8) (lit 49) ''acc_log.txt''))
     = lit 58.8
   \<and> lit 58.8 \<noteq> std_min (lit 120) (dadd (lit 58.8) (lit 2))"
  by (simp add: egoSpeed_adjustSpeed good_distance_exact_def nonneg_def model_eval)

text \<open>
  Claim C3, amended: for every state whose gap is above \<open>safeDistance * 1.5\<close> as the
  code computes it, and whose ego speed is not negative (or, more generally, whose gap
  is not below the computed safe distance), \<open>adjustSpeed\<close> sets the ego speed to
  \<open>std::min(120.0, egoSpeed + 2.0)\<close> when the ahead vehicle is faster and the ego
  speed is below 120, and leaves the state unchanged otherwise; with ego speed 118,
  ahead speed 125 and gap 120 the result is 120.
\<close>

theorem adjustSpeed_good_distance:
  assumes "dgt (distanceToAheadVehicle s) (dmul (calculateSafeDistance s) (lit 1.5))"
    and "dge (egoSpeed s) (lit 0)
         \<or> \<not> dlt (distanceToAheadVehicle s) (calculateSafeDistance s)"
  shows "adjustSpeed s =
           (if dgt (aheadVehicleSpeed s) (egoSpeed s) \<and> dlt (egoSpeed s) (lit 120)
            then s\<lparr>egoSpeed := std_min (lit 120) (dadd (egoSpeed s) (lit 2))\<rparr> else s)
         \<and> egoSpeed (adjustSpeed
              (AdaptiveCruiseControl_ctor (lit 118) (lit 125) (lit 120) f)) = lit 120"
proof -
  have "(1::real) + 1 / 2 ^ 52 \<le> 3 / 2" by simp
  with assms have far: "\<not> dlt (distanceToAheadVehicle s) (calculateSafeDistance s)"
    using zones_disjoint [of "egoSpeed s" "3 / 2" "distanceToAheadVehicle s"]
    by (auto simp: calculateSafeDistance_def lit_values dgt_def)
  with assms(1) have "adjustSpeed s =
      (if dgt (aheadVehicleSpeed s) (egoSpeed s) \<and> dlt (egoSpeed s) (lit 120)
       then s\<lparr>egoSpeed := std_min (lit 120) (dadd (egoSpeed s) (lit 2))\<rparr> else s)"
    by (simp add: adjustSpeed_def Let_def)
  moreover have "egoSpeed (adjustSpeed
      (AdaptiveCruiseControl_ctor (lit 118) (lit 125) (lit 120) f)) = lit 120"
    by (simp add: egoSpeed_adjustSpeed model_eval)
  ultimately show ?thesis by simp
qed

theorem adjustSpeed_good_distance_witness:
  "dgt (distanceToAheadVehicle
          (AdaptiveCruiseControl_ctor (lit 70) (lit 80) (lit 60) ''acc_log.txt''))
       (dmul (calculateSafeDistance
          (AdaptiveCruiseControl_ctor (lit 70) (lit 80) (lit 60) ''acc_log.txt'')) (lit 1.5))
   \<and> dge (egoSpeed (AdaptiveCruiseControl_ctor (lit 70) (lit 80) (lit 60) ''acc_log.txt''))
       (lit 0)
   \<and> adjustSpeed (AdaptiveCruiseControl_ctor (lit 70) (lit 80) (lit 60) ''acc_log.txt'')
     = AdaptiveCruiseControl_ctor (lit 72) (lit 80) (lit 60) ''acc_log.txt''"
  using adjustSpeed_good_distance
    [of "AdaptiveCruiseControl_ctor (lit 70) (lit 80) (lit 60) ''acc_log.txt''"]
  by (simp add: model_eval)




section \<open>Safe distance, setters and constructor\<close>

text \<open>
  Claim C5 says that \<open>calculateSafeDistance\<close> returns exactly \<open>egoSpeed \<times> 5/9\<close>. The
  code returns the rounded product of the ego speed and the rounded quotient
  \<open>5.0 / 9.0\<close>: at ego speed 60 this is \<open>4691249611844267 / 2\<^sup>4\<^sup>7\<close>, about
  33.333333333333336, and not 100/3.
\<close>

theorem calculateSafeDistance_exact_counterexample:
  "calculateSafeDistance (AdaptiveCruiseControl_ctor (lit 60) (lit 0) (lit 0) ''acc_log.txt'')
     = Finite (4691249611844267 / 2 ^ 47)
   \<and> (4691249611844267 / 2 ^ 47 :: real) \<noteq> 60 * 5 / 9"
  by (simp add: model_eval)

text \<open>
  Claim C5, amended: for an ego speed from 0 to \<open>10\<^sup>9\<close>, \<open>calculateSafeDistance\<close>
  returns a finite value within \<open>10\<^sup>-\<^sup>6\<close> of \<open>egoSpeed \<times> 5/9\<close>; at ego speed zero it
  returns zero; its result does not depend on the ahead vehicle's speed, on the gap
  or on the log file name. It is a \<open>const\<close> member function returning a number, so
  it has no state to return.
\<close>

theorem calculateSafeDistance_rounded:
  assumes "egoSpeed s = Finite e" and "0 \<le> e" and "e \<le> 10 ^ 9"
  shows "within_tol (1 / 10 ^ 6) (calculateSafeDistance s) (e * 5 / 9)
         \<and> calculateSafeDistance (s\<lparr>egoSpeed := lit 0\<rparr>) = lit 0
         \<and> calculateSafeDistance
             (s\<lparr>aheadVehicleSpeed := a, distanceToAheadVehicle := d, logFileName := f\<rparr>)
           = calculateSafeDistance s"
proof -
  define c :: real where "c = 2501999792983609 / 2 ^ 52"
  have c: "c = 5 / 9 + 1 / (9 * 2 ^ 52)" by (simp add: c_def)
  have "e * c \<le> 10 ^ 9 * c" using assms(3) by (intro mult_right_mono) (simp_all add: c_def)
  also have "\<dots> < 2 ^ 30" by (simp add: c_def)
  finally have "\<bar>e * c\<bar> < 2 ^ 30" using assms(2) by (simp add: c_def abs_mult)
  then obtain r where r: "round_double (e * c) = Finite r" "\<bar>r - e * c\<bar> \<le> 2 ^ 30 / 2 ^ 54"
    using round_double_close [of "e * c" 30] by auto
  have "e * c - e * 5 / 9 = e / (9 * 2 ^ 52)" by (simp add: c algebra_simps)
  moreover have "e / (9 * 2 ^ 52) \<le> 10 ^ 9 / (9 * 2 ^ 52)"
    using assms(3) by (intro divide_right_mono) simp_all
  moreover have "0 \<le> e / (9 * 2 ^ 52)" using assms(2) by simp
  moreover have "(2::real) ^ 30 / 2 ^ 54 + 10 ^ 9 / (9 * 2 ^ 52) \<le> 1 / 10 ^ 6" by simp
  ultimately have "\<bar>r - e * 5 / 9\<bar> \<le> 1 / 10 ^ 6" using r(2) by linarith
  with r(1) assms(1) have "within_tol (1 / 10 ^ 6) (calculateSafeDistance s) (e * 5 / 9)"
    by (simp add: within_tol_def calculateSafeDistance_def five_ninths_value c_def)
  moreover have "calculateSafeDistance (s\<lparr>egoSpeed := lit 0\<rparr>) = lit 0"
    by (simp add: calculateSafeDistance_def five_ninths_value lit_values round_double_def)
  ultimately show ?thesis by (simp add: calculateSafeDistance_def)
qed

theorem calculateSafeDistance_rounded_witness:
  "egoSpeed (AdaptiveCruiseControl_ctor (lit 60) (lit 65) (lit 50) ''acc_log.txt'') = Finite 60
   \<and> (0::real) \<le> 60 \<and> (60::real) \<le> 10 ^ 9
   \<and> within_tol (1 / 10 ^ 6)
       (calculateSafeDistance
          (AdaptiveCruiseControl_ctor (lit 60) (lit 65) (lit 50) ''acc_log.txt''))
       (60 * 5 / 9)"
  using calculateSafeDistance_rounded
    [of "AdaptiveCruiseControl_ctor (lit 60) (lit 65) (lit 50) ''acc_log.txt''" 60]
  by (simp add: AdaptiveCruiseControl_ctor_def lit_def round_eval)

text \<open>
  Claim C6: \<open>updateAheadVehicleSpeed\<close> replaces the ahead vehicle's speed by a value
  that is not negative and leaves the whole state unchanged for a negative value;
  \<open>updateDistance\<close> does the same with the gap. Neither has an error result.
\<close>

theorem update_accepts_nonnegative_only:
  assumes "dge v (lit 0)" and "dlt u (lit 0)"
  shows "updateAheadVehicleSpeed v s = s\<lparr>aheadVehicleSpeed := v\<rparr>
         \<and> updateAheadVehicleSpeed u s = s
         \<and> updateDistance v s = s\<lparr>distanceToAheadVehicle := v\<rparr>
         \<and> updateDistance u s = s"
proof -
  from assms(2) have "\<not> dge u (lit 0)"
    by (cases u) (simp_all add: dge_def dle_def lit_values)
  with assms(1) show ?thesis
    by (simp add: updateAheadVehicleSpeed_def updateDistance_def)
qed

theorem update_accepts_nonnegative_only_witness:
  "dge (lit 60) (lit 0) \<and> dlt (lit (- 10)) (lit 0)
   \<and> updateAheadVehicleSpeed (lit 60)
       (AdaptiveCruiseControl_ctor (lit 50) (lit 45) (lit 30) ''acc_log.txt'')
     = AdaptiveCruiseControl_ctor (lit 50) (lit 60) (lit 30) ''acc_log.txt''
   \<and> updateAheadVehicleSpeed (lit (- 10))
       (AdaptiveCruiseControl_ctor (lit 50) (lit 45) (lit 30) ''acc_log.txt'')
     = AdaptiveCruiseControl_ctor (lit 50) (lit 45) (lit 30) ''acc_log.txt''
   \<and> updateDistance (lit 60)
       (AdaptiveCruiseControl_ctor (lit 50) (lit 45) (lit 30) ''acc_log.txt'')
     = AdaptiveCruiseControl_ctor (lit 50) (lit 45) (lit 60) ''acc_log.txt''
   \<and> updateDistance (lit (- 10))
       (AdaptiveCruiseControl_ctor (lit 50) (lit 45) (lit 30) ''acc_log.txt'')
     = AdaptiveCruiseControl_ctor (lit 50) (lit 45) (lit 30) ''acc_log.txt''"
  using update_accepts_nonnegative_only
    [of "lit 60" "lit (- 10)"
        "AdaptiveCruiseControl_ctor (lit 50) (lit 45) (lit 30) ''acc_log.txt''"]
  by (simp add: model_eval)

lemma floor_nonneg: "dge (std_max (Finite 0) y) (Finite 0)"
  by (cases y) (simp_all add: std_max_def dge_def dle_def)

lemma increase_nonneg:
  assumes "dge e (Finite 0)"
  shows "dge (std_min (Finite 120) (dadd e (Finite 2))) (Finite 0)"
proof (cases e)
  case (Finite x)
  with assms have "0 \<le> x + 2" by (simp add: dge_def dle_def)
  then have "dle (Finite 0) (round_double (x + 2))" by (rule round_double_sign)
  with Finite show ?thesis
    by (cases "round_double (x + 2)") (simp_all add: std_min_def dge_def dle_def)
next
  case PInf
  then show ?thesis by (simp add: std_min_def dge_def dle_def)
next
  case NInf
  with assms show ?thesis by (simp add: dge_def dle_def)
next
  case NaN
  with assms show ?thesis by (simp add: dge_def dle_def)
qed

text \<open>
  Claim C7: when the three telemetry values are not negative, they are not negative
  after \<open>updateAheadVehicleSpeed\<close>, \<open>updateDistance\<close> (with any argument) or
  \<open>adjustSpeed\<close>.
\<close>

theorem nonneg_preserved:
  assumes "nonneg s"
  shows "nonneg (updateAheadVehicleSpeed v s)
         \<and> nonneg (updateDistance v s)
         \<and> nonneg (adjustSpeed s)"
proof -
  from assms have "nonneg (updateAheadVehicleSpeed v s)"
    by (simp add: nonneg_def updateAheadVehicleSpeed_def)
  moreover from assms have "nonneg (updateDistance v s)"
    by (simp add: nonneg_def updateDistance_def)
  moreover have "nonneg (adjustSpeed s)"
  proof -
    from assms have e: "dge (egoSpeed s) (Finite 0)" and a: "dge (aheadVehicleSpeed s) (Finite 0)"
      and d: "dge (distanceToAheadVehicle s) (Finite 0)"
      by (simp_all add: nonneg_def lit_values)
    have "aheadVehicleSpeed (adjustSpeed s) = aheadVehicleSpeed s"
      "distanceToAheadVehicle (adjustSpeed s) = distanceToAheadVehicle s"
      by (simp_all add: adjustSpeed_def Let_def)
    moreover have "dge (egoSpeed (adjustSpeed s)) (Finite 0)"
      using e a floor_nonneg [of "dsub (egoSpeed s) (Finite 5)"] increase_nonneg [OF e]
      by (simp add: egoSpeed_adjustSpeed)
    ultimately show ?thesis using a d by (simp add: nonneg_def lit_values)
  qed
  ultimately show ?thesis by simp
qed

theorem nonneg_preserved_witness:
  "nonneg (AdaptiveCruiseControl_ctor (lit 3) (lit 50) (lit 1) ''acc_log.txt'')
   \<and> nonneg (updateAheadVehicleSpeed (lit (- 10))
       (AdaptiveCruiseControl_ctor (lit 3) (lit 50) (lit 1) ''acc_log.txt''))
   \<and> nonneg (updateDistance (lit (- 10))
       (AdaptiveCruiseControl_ctor (lit 3) (lit 50) (lit 1) ''acc_log.txt''))
   \<and> nonneg (adjustSpeed (AdaptiveCruiseControl_ctor (lit 3) (lit 50) (lit 1) ''acc_log.txt''))
   \<and> egoSpeed (adjustSpeed (AdaptiveCruiseControl_ctor (lit 3) (lit 50) (lit 1) ''acc_log.txt''))
     = lit 0"
  using nonneg_preserved
    [of "AdaptiveCruiseControl_ctor (lit 3) (lit 50) (lit 1) ''acc_log.txt''" "lit (- 10)"]
  by (simp add: nonneg_def egoSpeed_adjustSpeed model_eval)

text \<open>
  Claim C8: \<open>adjustSpeed\<close> changes the ego speed only. The ahead vehicle's speed, the
  gap and the log file name are as before the call, and the call leaves the console
  and the files untouched.
\<close>

theorem adjustSpeed_frame:
  "aheadVehicleSpeed (adjustSpeed s) = aheadVehicleSpeed s
   \<and> distanceToAheadVehicle (adjustSpeed s) = distanceToAheadVehicle s
   \<and> logFileName (adjustSpeed s) = logFileName s
   \<and> adjustSpeed s = s\<lparr>egoSpeed := egoSpeed (adjustSpeed s)\<rparr>
   \<and> invoke AdjustSpeed (s, w) = (adjustSpeed s, w)"
  by (simp add: adjustSpeed_def Let_def)

text \<open>
  Claim C10: the constructor stores its arguments as they are, negative values
  included, so that an object can start with a negative ahead speed and a negative
  gap.
\<close>

theorem constructor_stores_verbatim:
  "getEgoSpeed (AdaptiveCruiseControl_ctor e a d f) = e
   \<and> getAheadVehicleSpeed (AdaptiveCruiseControl_ctor e a d f) = a
   \<and> getDistance (AdaptiveCruiseControl_ctor e a d f) = d
   \<and> getLogFileName (AdaptiveCruiseControl_ctor e a d f) = f
   \<and> dlt (getAheadVehicleSpeed (AdaptiveCruiseControl_ctor (lit 0) (lit (- 10)) (lit (- 5)) f))
       (lit 0)
   \<and> dlt (getDistance (AdaptiveCruiseControl_ctor (lit 0) (lit (- 10)) (lit (- 5)) f)) (lit 0)
   \<and> \<not> nonneg (AdaptiveCruiseControl_ctor (lit 0) (lit (- 10)) (lit (- 5)) f)"
  by (simp add: getEgoSpeed_def getAheadVehicleSpeed_def
      getDistance_def getLogFileName_def nonneg_def model_eval)

section \<open>Status rendering\<close>

lemma console_advice_eq:
  "console_advice s w =
     [if dlt (distanceToAheadVehicle s) (calculateSafeDistance s)
      then TooClose (aheadVehicleSpeed s)
      else if dgt (distanceToAheadVehicle s) (dmul (calculateSafeDistance s) (lit 1.2))
      then SafeGap else Caution]"
  by (simp add: console_advice_def displayStatus_def Let_def)

lemma log_advice_eq:
  assumes "openable w (logFileName s)"
  shows "log_advice s w =
     [if dlt (distanceToAheadVehicle s) (calculateSafeDistance s)
      then TooClose (aheadVehicleSpeed s)
      else if dgt (distanceToAheadVehicle s) (dmul (calculateSafeDistance s) (lit 1.2))
      then SafeGap else Caution]"
  using assms by (simp add: log_advice_def saveStatusToFile_def Let_def)

lemma log_advice_closed:
  assumes "\<not> openable w (logFileName s)"
  shows "log_advice s w = []"
  using assms by (simp add: log_advice_def saveStatusToFile_def)

text \<open>
  Claim C9 gives the hold-speed advisory to every gap above the real number
  \<open>1.2 \<times> (egoSpeed \<times> 5/9)\<close>. Both renderers compare the gap with the rounded product
  \<open>safeDistance * 1.2\<close>, where 1.2 is itself a rounded literal. With ego speed 5.1,
  ahead speed 0 and gap 3.4, the gap is not below \<open>egoSpeed \<times> 5/9\<close> and above
  \<open>1.2 \<times> (egoSpeed \<times> 5/9)\<close>; the computed threshold is 3.4, the test \<open>3.4 > 3.4\<close>
  fails, and both renderers write the caution advisory.
\<close>

theorem status_advisory_counterexample:
  "hold_speed_exact (AdaptiveCruiseControl_ctor (lit 5.1) (lit 0) (lit 3.4) ''acc_log.txt'')
   \<and> nonneg (AdaptiveCruiseControl_ctor (lit 5.1) (lit 0) (lit 3.4) ''acc_log.txt'')
   \<and> console_advice (AdaptiveCruiseControl_ctor (lit 5.1) (lit 0) (lit 3.4) ''acc_log.txt'')
       quiet_world = [Caution]
   \<and> log_advice (AdaptiveCruiseControl_ctor (lit 5.1) (lit 0) (lit 3.4) ''acc_log.txt'')
       quiet_world = [Caution]"
  by (simp add: console_advice_eq log_advice_eq hold_speed_exact_def nonneg_def
      quiet_world_def model_eval)

text \<open>
  Claim C9, amended: each renderer writes exactly one advisory, chosen by the same
  tests in the same order (the log writer when its file opens): the too-close advisory
  when the gap is below the computed safe distance; otherwise the hold-speed advisory
  when the gap is above the computed \<open>safeDistance * 1.2\<close>, which for an ego speed
  that is not negative is every gap above that product; the caution advisory
  otherwise. The factor 1.2 is not the factor 1.5 of the adjustment policy: a gap
  above the first product and not above the second gets the hold-speed advisory while
  \<open>adjustSpeed\<close> is the identity.
\<close>

theorem status_advisory:
  assumes "openable w (logFileName s)"
  shows "(dlt (distanceToAheadVehicle s) (calculateSafeDistance s) \<longrightarrow>
            console_advice s w = [TooClose (aheadVehicleSpeed s)]
            \<and> log_advice s w = [TooClose (aheadVehicleSpeed s)])
         \<and> (\<not> dlt (distanceToAheadVehicle s) (calculateSafeDistance s)
            \<and> dgt (distanceToAheadVehicle s) (dmul (calculateSafeDistance s) (lit 1.2)) \<longrightarrow>
            console_advice s w = [SafeGap] \<and> log_advice s w = [SafeGap])
         \<and> (dge (egoSpeed s) (lit 0)
            \<and> dgt (distanceToAheadVehicle s) (dmul (calculateSafeDistance s) (lit 1.2)) \<longrightarrow>
            console_advice s w = [SafeGap] \<and> log_advice s w = [SafeGap])
         \<and> (\<not> dlt (distanceToAheadVehicle s) (calculateSafeDistance s)
            \<and> \<not> dgt (distanceToAheadVehicle s) (dmul (calculateSafeDistance s) (lit 1.2)) \<longrightarrow>
            console_advice s w = [Caution] \<and> log_advice s w = [Caution])
         \<and> (\<not> dlt (distanceToAheadVehicle s) (calculateSafeDistance s)
            \<and> dgt (distanceToAheadVehicle s) (dmul (calculateSafeDistance s) (lit 1.2))
            \<and> \<not> dgt (distanceToAheadVehicle s) (dmul (calculateSafeDistance s) (lit 1.5)) \<longrightarrow>
            console_advice s w = [SafeGap] \<and> adjustSpeed s = s)"
proof -
  have close: "dlt (distanceToAheadVehicle s) (calculateSafeDistance s) \<longrightarrow>
      console_advice s w = [TooClose (aheadVehicleSpeed s)]
      \<and> log_advice s w = [TooClose (aheadVehicleSpeed s)]"
    using assms by (simp add: console_advice_eq log_advice_eq)
  have hold: "\<not> dlt (distanceToAheadVehicle s) (calculateSafeDistance s)
      \<and> dgt (distanceToAheadVehicle s) (dmul (calculateSafeDistance s) (lit 1.2)) \<longrightarrow>
      console_advice s w = [SafeGap] \<and> log_advice s w = [SafeGap]"
    using assms by (simp add: console_advice_eq log_advice_eq)
  have "(1::real) + 1 / 2 ^ 52 \<le> 5404319552844595 / 2 ^ 52" by simp
  then have pos: "dge (egoSpeed s) (lit 0)
      \<and> dgt (distanceToAheadVehicle s) (dmul (calculateSafeDistance s) (lit 1.2)) \<longrightarrow>
      \<not> dlt (distanceToAheadVehicle s) (calculateSafeDistance s)"
    using zones_disjoint
      [of "egoSpeed s" "5404319552844595 / 2 ^ 52" "distanceToAheadVehicle s"]
    by (auto simp: calculateSafeDistance_def lit_values dgt_def)
  have caution: "\<not> dlt (distanceToAheadVehicle s) (calculateSafeDistance s)
      \<and> \<not> dgt (distanceToAheadVehicle s) (dmul (calculateSafeDistance s) (lit 1.2)) \<longrightarrow>
      console_advice s w = [Caution] \<and> log_advice s w = [Caution]"
    using assms by (simp add: console_advice_eq log_advice_eq)
  have between: "\<not> dlt (distanceToAheadVehicle s) (calculateSafeDistance s)
      \<and> \<not> dgt (distanceToAheadVehicle s) (dmul (calculateSafeDistance s) (lit 1.5)) \<longrightarrow>
      adjustSpeed s = s"
    by (simp add: adjustSpeed_def Let_def)
  from close hold pos caution between show ?thesis by blast
qed

theorem status_advisory_witness:
  "openable quiet_world
     (logFileName (AdaptiveCruiseControl_ctor (lit 80) (lit 70) (lit 20) ''acc_log.txt''))
   \<and> console_advice (AdaptiveCruiseControl_ctor (lit 80) (lit 70) (lit 20) ''acc_log.txt'')
       quiet_world = [TooClose (lit 70)]
   \<and> log_advice (AdaptiveCruiseControl_ctor (lit 80) (lit 70) (lit 20) ''acc_log.txt'')
       quiet_world = [TooClose (lit 70)]
   \<and> console_advice (AdaptiveCruiseControl_ctor (lit 90) (lit 95) (lit 70) ''acc_log.txt'')
       quiet_world = [SafeGap]
   \<and> log_advice (AdaptiveCruiseControl_ctor (lit 90) (lit 95) (lit 70) ''acc_log.txt'')
       quiet_world = [SafeGap]
   \<and> adjustSpeed (AdaptiveCruiseControl_ctor (lit 90) (lit 95) (lit 70) ''acc_log.txt'')
     = AdaptiveCruiseControl_ctor (lit 90) (lit 95) (lit 70) ''acc_log.txt''
   \<and> console_advice (AdaptiveCruiseControl_ctor (lit 90) (lit 95) (lit 55) ''acc_log.txt'')
       quiet_world = [Caution]
   \<and> log_advice (AdaptiveCruiseControl_ctor (lit 90) (lit 95) (lit 55) ''acc_log.txt'')
       quiet_world = [Caution]"
  using
    status_advisory
      [of quiet_world "AdaptiveCruiseControl_ctor (lit 80) (lit 70) (lit 20) ''acc_log.txt''"]
    status_advisory
      [of quiet_world "AdaptiveCruiseControl_ctor (lit 90) (lit 95) (lit 70) ''acc_log.txt''"]
    status_advisory
      [of quiet_world "AdaptiveCruiseControl_ctor (lit 90) (lit 95) (lit 55) ''acc_log.txt''"]
  by (simp add: quiet_world_def model_eval)

section \<open>Agreement with the zones of the specification\<close>

lemma safe_distance_close:
  assumes "0 \<le> e" and "e \<le> 10 ^ 9"
  shows "\<exists>r. dmul (Finite e) five_ninths = Finite r \<and> 0 \<le> r \<and> r < 2 ^ 30
           \<and> \<bar>r - e * 5 / 9\<bar> \<le> 85 / 10 ^ 9"
proof -
  define c :: real where "c = 2501999792983609 / 2 ^ 52"
  have c: "c = 5 / 9 + 1 / (9 * 2 ^ 52)" by (simp add: c_def)
  have c0: "0 \<le> c" by (simp add: c_def)
  have le: "e * c \<le> 10 ^ 9 * c" using assms(2) c0 by (intro mult_right_mono) simp_all
  also have "\<dots> < 2 ^ 30" by (simp add: c_def)
  finally have "\<bar>e * c\<bar> < 2 ^ 30" using assms(1) c0 by (simp add: abs_mult)
  moreover have "0 \<le> e * c" using assms(1) c0 by simp
  ultimately obtain r where r: "round_double (e * c) = Finite r"
      "\<bar>r - e * c\<bar> \<le> 2 ^ 30 / 2 ^ 54" "0 \<le> r"
    using round_double_close [of "e * c" 30] by auto
  have "e * c - e * 5 / 9 = e / (9 * 2 ^ 52)" by (simp add: c algebra_simps)
  moreover have "e / (9 * 2 ^ 52) \<le> 10 ^ 9 / (9 * 2 ^ 52)"
    using assms(2) by (intro divide_right_mono) simp_all
  moreover have "0 \<le> e / (9 * 2 ^ 52)" using assms(1) by simp
  moreover have "(2::real) ^ 30 / 2 ^ 54 + 10 ^ 9 / (9 * 2 ^ 52) \<le> 85 / 10 ^ 9" by simp
  ultimately have close: "\<bar>r - e * 5 / 9\<bar> \<le> 85 / 10 ^ 9" using r(2) by linarith
  have "(10::real) ^ 9 * c + 2 ^ 30 / 2 ^ 54 < 2 ^ 30" by (simp add: c_def)
  with le r(2) have "r < 2 ^ 30" by linarith
  with r(1,3) close show ?thesis by (simp add: five_ninths_value c_def)
qed

lemma threshold_close:
  assumes "0 \<le> r" and "r < 2 ^ 30" and "0 \<le> f" and "f \<le> 3 / 2"
  shows "\<exists>t. dmul (Finite r) (Finite f) = Finite t \<and> \<bar>t - r * f\<bar> \<le> 12 / 10 ^ 8"
proof -
  have "r * f \<le> r * (3 / 2)" using assms(1,4) by (intro mult_left_mono) simp_all
  also have "\<dots> < 2 ^ 31" using assms(2) by simp
  finally have "\<bar>r * f\<bar> < 2 ^ 31" using assms(1,3) by (simp add: abs_mult)
  then obtain t where t: "round_double (r * f) = Finite t" "\<bar>t - r * f\<bar> \<le> 2 ^ 31 / 2 ^ 54"
    using round_double_close [of "r * f" 31] by auto
  have "(2::real) ^ 31 / 2 ^ 54 \<le> 12 / 10 ^ 8" by simp
  with t show ?thesis by auto
qed

text \<open>
  For an ego speed from 0 to \<open>10\<^sup>9\<close>, the tests of the code agree with the zones of
  the specification for every gap that is more than \<open>10\<^sup>-\<^sup>6\<close> away from the boundaries
  \<open>egoSpeed \<times> 5/9\<close>, \<open>1.5 \<times> (egoSpeed \<times> 5/9)\<close> and \<open>1.2 \<times> (egoSpeed \<times> 5/9)\<close>.
\<close>

lemma tests_agree_off_boundary:
  assumes "egoSpeed s = Finite e" and "distanceToAheadVehicle s = Finite g"
    and "0 \<le> e" and "e \<le> 10 ^ 9"
  shows "g < e * 5 / 9 - 1 / 10 ^ 6 \<Longrightarrow>
           dlt (distanceToAheadVehicle s) (calculateSafeDistance s)"
    and "e * 5 / 9 + 1 / 10 ^ 6 \<le> g \<Longrightarrow>
           \<not> dlt (distanceToAheadVehicle s) (calculateSafeDistance s)"
    and "1.5 * (e * 5 / 9) + 1 / 10 ^ 6 < g \<Longrightarrow>
           dgt (distanceToAheadVehicle s) (dmul (calculateSafeDistance s) (lit 1.5))"
    and "g \<le> 1.5 * (e * 5 / 9) - 1 / 10 ^ 6 \<Longrightarrow>
           \<not> dgt (distanceToAheadVehicle s) (dmul (calculateSafeDistance s) (lit 1.5))"
    and "1.2 * (e * 5 / 9) + 1 / 10 ^ 6 < g \<Longrightarrow>
           dgt (distanceToAheadVehicle s) (dmul (calculateSafeDistance s) (lit 1.2))"
    and "g \<le> 1.2 * (e * 5 / 9) - 1 / 10 ^ 6 \<Longrightarrow>
           \<not> dgt (distanceToAheadVehicle s) (dmul (calculateSafeDistance s) (lit 1.2))"
proof -
  define B where "B = e * 5 / 9"
  obtain r where r: "calculateSafeDistance s = Finite r" "0 \<le> r" "r < 2 ^ 30"
      "\<bar>r - e * 5 / 9\<bar> \<le> 85 / 10 ^ 9"
    using safe_distance_close [OF assms(3,4)] assms(1) by (auto simp: calculateSafeDistance_def)
  from r(4) have rB: "\<bar>r - B\<bar> \<le> 85 / 1000000000" by (simp add: B_def)
  obtain t where t: "dmul (Finite r) (Finite (3 / 2)) = Finite t" "\<bar>t - r * (3 / 2)\<bar> \<le> 12 / 10 ^ 8"
    using threshold_close [OF r(2,3), of "3 / 2"] by auto
  from t(2) have "\<bar>t - r * (3 / 2)\<bar> \<le> 12 / 100000000" by simp
  with rB have tB: "\<bar>t - 3 / 2 * B\<bar> \<le> 1 / 1000000" by linarith
  define f :: real where "f = 5404319552844595 / 2 ^ 52"
  have f: "0 \<le> f" "f \<le> 3 / 2" "\<bar>f - 12 / 10\<bar> \<le> 1 / 10 ^ 16" by (simp_all add: f_def)
  obtain u where u: "dmul (Finite r) (Finite f) = Finite u" "\<bar>u - r * f\<bar> \<le> 12 / 10 ^ 8"
    using threshold_close [OF r(2,3) f(1,2)] by auto
  have "r * f - r * (12 / 10) = r * (f - 12 / 10)" by (simp add: algebra_simps)
  then have "\<bar>r * f - r * (12 / 10)\<bar> = r * \<bar>f - 12 / 10\<bar>"
    using r(2) by (simp only: abs_mult abs_of_nonneg)
  also have "\<dots> \<le> 2 ^ 30 * (1 / 10 ^ 16)"
    using r(2,3) f(3) by (intro mult_mono) simp_all
  also have "\<dots> \<le> 2 / 10000000" by simp
  finally have rf: "\<bar>r * f - r * (12 / 10)\<bar> \<le> 2 / 10000000" .
  from u(2) have "\<bar>u - r * f\<bar> \<le> 12 / 100000000" by simp
  with rf rB have uB: "\<bar>u - 12 / 10 * B\<bar> \<le> 1 / 1000000" by linarith
  have safe: "dlt (distanceToAheadVehicle s) (calculateSafeDistance s) \<longleftrightarrow> g < r"
    using r(1) assms(2) by simp
  have good: "dgt (distanceToAheadVehicle s) (dmul (calculateSafeDistance s) (lit 1.5))
      \<longleftrightarrow> t < g"
    using r(1) t(1) assms(2) by (simp add: dgt_def lit_values)
  have hold: "dgt (distanceToAheadVehicle s) (dmul (calculateSafeDistance s) (lit 1.2))
      \<longleftrightarrow> u < g"
    using r(1) u(1) assms(2) by (simp add: dgt_def lit_values f_def)
  show "dlt (distanceToAheadVehicle s) (calculateSafeDistance s)"
    if "g < e * 5 / 9 - 1 / 10 ^ 6"
  proof -
    from that have "g < B - 1 / 1000000" by (simp add: B_def)
    with rB have "g < r" by linarith
    with safe show ?thesis by simp
  qed
  show "\<not> dlt (distanceToAheadVehicle s) (calculateSafeDistance s)"
    if "e * 5 / 9 + 1 / 10 ^ 6 \<le> g"
  proof -
    from that have "B + 1 / 1000000 \<le> g" by (simp add: B_def)
    with rB have "\<not> g < r" by linarith
    with safe show ?thesis by simp
  qed
  show "dgt (distanceToAheadVehicle s) (dmul (calculateSafeDistance s) (lit 1.5))"
    if "1.5 * (e * 5 / 9) + 1 / 10 ^ 6 < g"
  proof -
    from that have "3 / 2 * B + 1 / 1000000 < g" by (simp add: B_def)
    with tB have "t < g" by linarith
    with good show ?thesis by simp
  qed
  show "\<not> dgt (distanceToAheadVehicle s) (dmul (calculateSafeDistance s) (lit 1.5))"
    if "g \<le> 1.5 * (e * 5 / 9) - 1 / 10 ^ 6"
  proof -
    from that have "g \<le> 3 / 2 * B - 1 / 1000000" by (simp add: B_def)
    with tB have "\<not> t < g" by linarith
    with good show ?thesis by simp
  qed
  show "dgt (distanceToAheadVehicle s) (dmul (calculateSafeDistance s) (lit 1.2))"
    if "1.2 * (e * 5 / 9) + 1 / 10 ^ 6 < g"
  proof -
    from that have "12 / 10 * B + 1 / 1000000 < g" by (simp add: B_def)
    with uB have "u < g" by linarith
    with hold show ?thesis by simp
  qed
  show "\<not> dgt (distanceToAheadVehicle s) (dmul (calculateSafeDistance s) (lit 1.2))"
    if "g \<le> 1.2 * (e * 5 / 9) - 1 / 10 ^ 6"
  proof -
    from that have "g \<le> 12 / 10 * B - 1 / 1000000" by (simp add: B_def)
    with uB have "\<not> u < g" by linarith
    with hold show ?thesis by simp
  qed
qed

end
